theory Spec2Isabelle
  imports Complex_Main
begin

section \<open>Data model\<close>

text \<open>
  The program reads one earthquake event and its intensity reports from an SQLite
  file, computes for each report the distance to the epicentre, a theoretical
  intensity and the absolute difference to the reported one, and writes two maps.

  Numbers: Python \<open>float\<close> and NumPy \<open>float64\<close> values are modelled as \<open>real\<close>
  (exact arithmetic: no rounding, no overflow, no NaN), Python and NumPy integers as
  \<open>int\<close>. A pandas frame is a list of rows, a NumPy array a list. Strings are byte
  strings; a character outside ASCII is written as its UTF-8 bytes.
\<close>

text \<open>
  Both \<open>raise ValueError(...)\<close> of the source carry a message; \<open>KeyError\<close> is what
  indexing a dictionary at a missing key raises.
\<close>

datatype error = ValueError string | KeyError

text \<open>A row of \<open>eventinfo\<close>, as \<open>leer_evento\<close> selects it; all columns present.\<close>

record evento =
  eventid :: string
  origintime :: string
  latitude :: real
  longitude :: real
  magnitude :: real

text \<open>
  A row of \<open>intensityreports\<close> in the database: \<open>lat\<close> and \<open>lon\<close> may be NULL, the
  intensity is an integer.
\<close>

record fila_db =
  db_eventid :: string
  db_userid :: string
  db_lat :: "real option"
  db_lon :: "real option"
  db_intensity :: int

record base_datos =
  eventinfo :: "evento list"
  intensityreports :: "fila_db list"

text \<open>A row of the frame of \<open>leer_reportes\<close>: the columns \<open>userid, lat, lon, intensity\<close>.\<close>

record reporte =
  userid :: string
  lat :: real
  lon :: real
  intensity :: int

section \<open>Python library functions used by the program\<close>

subsection \<open>Printing numbers\<close>

definition digito :: "nat \<Rightarrow> char" where
  "digito d = ''0123456789'' ! d"

text \<open>\<open>dec n\<close> is \<open>str(n)\<close> for \<open>n \<ge> 0\<close>; \<open>digitos k n\<close> is the last \<open>k\<close> digits, zero padded.\<close>

function dec :: "nat \<Rightarrow> string" where
  "dec n = (if n < 10 then [digito n] else dec (n div 10) @ [digito (n mod 10)])"
  by pat_completeness auto
termination
  by (relation "measure id") auto

declare dec.simps [simp del]

fun digitos :: "nat \<Rightarrow> nat \<Rightarrow> string" where
  "digitos k n = (if k = 0 then [] else digitos (k - 1) (n div 10) @ [digito (n mod 10)])"

declare digitos.simps [simp del]

definition str_int :: "int \<Rightarrow> string" where
  "str_int i = (if i < 0 then ''-'' @ dec (nat (- i)) else dec (nat i))"

text \<open>
  \<open>fmt_f n x\<close> is \<open>f"{x:.nf}"\<close>: \<open>x\<close> rounded to \<open>n\<close> decimals, ties to the even
  neighbour, with the sign of \<open>x\<close>.
\<close>

definition round_half_even :: "real \<Rightarrow> int" where
  "round_half_even y =
     (let f = \<lfloor>y\<rfloor>; d = y - of_int f
      in if d < 1 / 2 then f else if d > 1 / 2 then f + 1
         else if even f then f else f + 1)"

definition fmt_f :: "nat \<Rightarrow> real \<Rightarrow> string" where
  "fmt_f n x =
     (let s = nat (round_half_even (\<bar>x\<bar> * 10 ^ n))
      in (if x < 0 then ''-'' else '''') @ dec (s div 10 ^ n)
         @ (if n = 0 then '''' else ''.'' @ digitos n (s mod 10 ^ n)))"

definition nl :: string where
  "nl = [CHR 0x0A]"

text \<open>\<open>join sep xs\<close> is \<open>sep.join(xs)\<close>.\<close>

fun join :: "string \<Rightarrow> string list \<Rightarrow> string" where
  "join sep [] = []"
| "join sep [x] = x"
| "join sep (x # y # ys) = x @ sep @ join sep (y # ys)"

subsection \<open>Dates and times\<close>

text \<open>
  A \<open>datetime\<close> value: its calendar fields and, when it is aware, its offset from
  UTC in minutes.
\<close>

record datetime =
  year :: nat
  month :: nat
  day :: nat
  hour :: nat
  minute :: nat
  second :: nat
  microsecond :: nat
  utcoffset :: "int option"

definition es_digito :: "char \<Rightarrow> bool" where
  "es_digito c \<longleftrightarrow> c \<in> set ''0123456789''"

definition valor_digito :: "char \<Rightarrow> nat" where
  "valor_digito c = of_char c - 48"

definition num :: "string \<Rightarrow> nat option" where
  "num s = (if s \<noteq> [] \<and> list_all es_digito s
            then Some (foldl (\<lambda>a c. 10 * a + valor_digito c) 0 s) else None)"

definition bisiesto :: "nat \<Rightarrow> bool" where
  "bisiesto y \<longleftrightarrow> y mod 4 = 0 \<and> (y mod 100 \<noteq> 0 \<or> y mod 400 = 0)"

definition dias_del_mes :: "nat \<Rightarrow> nat \<Rightarrow> nat" where
  "dias_del_mes y m =
     (if m = 2 then (if bisiesto y then 29 else 28)
      else if m \<in> {4, 6, 9, 11} then 30 else 31)"

definition parse_fecha :: "string \<Rightarrow> (nat \<times> nat \<times> nat) option" where
  "parse_fecha s =
     (if length s = 10 \<and> s ! 4 = CHR ''-'' \<and> s ! 7 = CHR ''-'' then
        (case (num (take 4 s), num (take 2 (drop 5 s)), num (drop 8 s)) of
           (Some y, Some m, Some d) \<Rightarrow>
             if 1 \<le> y \<and> 1 \<le> m \<and> m \<le> 12 \<and> 1 \<le> d \<and> d \<le> dias_del_mes y m
             then Some (y, m, d) else None
         | _ \<Rightarrow> None)
      else None)"

definition parse_hms :: "string \<Rightarrow> (nat \<times> nat \<times> nat \<times> nat) option" where
  "parse_hms s =
     (if length s \<in> {8, 12, 15} \<and> s ! 2 = CHR '':'' \<and> s ! 5 = CHR '':''
         \<and> (length s = 8 \<or> s ! 8 = CHR ''.'') then
        (case (num (take 2 s), num (take 2 (drop 3 s)), num (take 2 (drop 6 s)),
               if length s = 8 then Some 0
               else if length s = 12 then map_option (\<lambda>f. f * 1000) (num (drop 9 s))
               else num (drop 9 s)) of
           (Some h, Some m, Some sec, Some us) \<Rightarrow>
             if h < 24 \<and> m < 60 \<and> sec < 60 then Some (h, m, sec, us) else None
         | _ \<Rightarrow> None)
      else None)"

definition parse_offset :: "string \<Rightarrow> int option" where
  "parse_offset s =
     (if length s = 6 \<and> s ! 0 \<in> {CHR ''+'', CHR ''-''} \<and> s ! 3 = CHR '':'' then
        (case (num (take 2 (drop 1 s)), num (drop 4 s)) of
           (Some h, Some m) \<Rightarrow>
             if h < 24 \<and> m < 60
             then Some ((if s ! 0 = CHR ''-'' then - 1 else 1) * int (60 * h + m))
             else None
         | _ \<Rightarrow> None)
      else None)"

definition es_signo :: "char \<Rightarrow> bool" where
  "es_signo c \<longleftrightarrow> c = CHR ''+'' \<or> c = CHR ''-''"

text \<open>
  \<open>datetime.fromisoformat\<close> on the forms \<open>YYYY-MM-DD\<close> and
  \<open>YYYY-MM-DD?HH:MM:SS[.fff[fff]][+HH:MM]\<close> (\<open>?\<close> any one character, the sign of the
  offset \<open>+\<close> or \<open>-\<close>); a string of another form, or with a field out of range, is
  a \<open>ValueError\<close> here.
\<close>

definition fromisoformat :: "string \<Rightarrow> error + datetime" where
  "fromisoformat s =
     (case parse_fecha (take 10 s) of
        None \<Rightarrow> Inl (ValueError ''Invalid isoformat string'')
      | Some (y, m, d) \<Rightarrow>
          if length s = 10 then
            Inr \<lparr>year = y, month = m, day = d, hour = 0, minute = 0, second = 0,
                 microsecond = 0, utcoffset = None\<rparr>
          else
            (let t = drop 11 s;
                 hms = takeWhile (\<lambda>c. \<not> es_signo c) t;
                 tz = dropWhile (\<lambda>c. \<not> es_signo c) t
             in case (parse_hms hms,
                      if tz = [] then Some None else map_option Some (parse_offset tz)) of
                  (Some (h, mi, sec, us), Some off) \<Rightarrow>
                    Inr \<lparr>year = y, month = m, day = d, hour = h, minute = mi, second = sec,
                         microsecond = us, utcoffset = off\<rparr>
                | _ \<Rightarrow> Inl (ValueError ''Invalid isoformat string'')))"

text \<open>\<open>s.replace("Z", "+00:00")\<close>.\<close>

definition replace_Z :: "string \<Rightarrow> string" where
  "replace_Z s = concat (map (\<lambda>c. if c = CHR ''Z'' then ''+00:00'' else [c]) s)"

text \<open>
  \<open>dt.strftime("%Y-%m-%d")\<close> and \<open>dt.strftime("%H:%M:%S")\<close>: the fields of \<open>dt\<close> as
  they are, whatever its offset (the year with four digits, as for the years from
  1000 on).
\<close>

definition strftime_fecha :: "datetime \<Rightarrow> string" where
  "strftime_fecha dt =
     digitos 4 (year dt) @ ''-'' @ digitos 2 (month dt) @ ''-'' @ digitos 2 (day dt)"

definition strftime_hora :: "datetime \<Rightarrow> string" where
  "strftime_hora dt =
     digitos 2 (hour dt) @ '':'' @ digitos 2 (minute dt) @ '':'' @ digitos 2 (second dt)"

text \<open>
  For comparison only: the time of day of \<open>dt\<close> in UTC, which is what a line
  labelled \<open>Hora (UTC)\<close> announces. A datetime without offset is read as UTC.
\<close>

definition hora_en_utc :: "datetime \<Rightarrow> string" where
  "hora_en_utc dt =
     (let off = (case utcoffset dt of None \<Rightarrow> 0 | Some m \<Rightarrow> m);
          t = nat ((int (60 * hour dt + minute dt) - off) mod 1440)
      in digitos 2 (t div 60) @ '':'' @ digitos 2 (t mod 60) @ '':'' @ digitos 2 (second dt))"

section \<open>Reading the database\<close>

text \<open>\<open>cursor.fetchone()\<close>: the first row of the result, or \<open>None\<close>.\<close>

definition fetchone :: "'a list \<Rightarrow> 'a option" where
  "fetchone rows = (case rows of [] \<Rightarrow> None | r # _ \<Rightarrow> Some r)"

definition msg_sin_evento :: string where
  "msg_sin_evento = ''No se encontr'' @ [CHR 0xC3, CHR 0xB3] @ '' el evento solicitado en eventinfo.''"

definition msg_sin_reportes :: string where
  "msg_sin_reportes = ''No hay reportes de intensidad con lat/lon para este evento.''"

definition leer_evento :: "base_datos \<Rightarrow> string option \<Rightarrow> error + evento" where
  "leer_evento conn event_id =
     (let row = (case event_id of
                   None \<Rightarrow> fetchone (eventinfo conn)
                 | Some e \<Rightarrow> fetchone (filter (\<lambda>r. eventid r = e) (eventinfo conn)))
      in case row of
           None \<Rightarrow> Inl (ValueError msg_sin_evento)
         | Some r \<Rightarrow> Inr r)"

text \<open>
  \<open>leer_reportes\<close>: the rows of the event with \<open>lat IS NOT NULL AND lon IS NOT NULL\<close>.
\<close>

definition leer_reportes :: "base_datos \<Rightarrow> string \<Rightarrow> reporte list" where
  "leer_reportes conn event_id =
     List.map_filter
       (\<lambda>r. case (db_lat r, db_lon r) of
              (Some la, Some lo) \<Rightarrow>
                if db_eventid r = event_id
                then Some \<lparr>userid = db_userid r, lat = la, lon = lo, intensity = db_intensity r\<rparr>
                else None
            | _ \<Rightarrow> None)
       (intensityreports conn)"

section \<open>Distances and the theoretical intensity\<close>

text \<open>
  \<open>calcular_distancias\<close> works on whole columns; \<open>distancia_km\<close> is what it computes in
  each row: \<open>sqrt((lat - lat_sis)**2 + (lon - lon_sis)**2) * 110.0\<close>.
\<close>

definition distancia_km :: "real \<Rightarrow> real \<Rightarrow> real \<Rightarrow> real \<Rightarrow> real" where
  "distancia_km la lo lat_sis lon_sis =
     sqrt ((la - lat_sis)\<^sup>2 + (lo - lon_sis)\<^sup>2) * 110"

definition calcular_distancias :: "reporte list \<Rightarrow> real \<Rightarrow> real \<Rightarrow> real list" where
  "calcular_distancias df lat_sis lon_sis =
     map (\<lambda>r. distancia_km (lat r) (lon r) lat_sis lon_sis) df"

text \<open>
  \<open>imm_teorica_por_tramos\<close> is elementwise over the arrays \<open>R_km\<close> and \<open>imm_obs\<close>;
  \<open>imm_teorica_punto\<close> is its value at one element, with the source's intermediate
  names: \<open>R_safe\<close>, \<open>tramo1\<close>, \<open>val1\<close>, \<open>val2\<close>, then \<open>np.floor\<close>, \<open>np.clip(_, 1, None)\<close>
  and \<open>astype(int)\<close>.
\<close>

definition R_safe :: "real \<Rightarrow> real" where
  "R_safe R = (if R > 0 then R else 0.000001)"

definition tramo1 :: "real \<Rightarrow> bool" where
  "tramo1 imm_obs \<longleftrightarrow> imm_obs \<le> 4.22"

definition val1 :: "real \<Rightarrow> real \<Rightarrow> real" where
  "val1 R M = 3.598 - 0.004805 * R - 0.53 * log 10 R + 0.295 * M"

definition val2 :: "real \<Rightarrow> real \<Rightarrow> real" where
  "val2 R M = 4.002 - 0.011470 * R - 2.68 * log 10 R + 0.940 * M"

definition imm_teorica_punto :: "real \<Rightarrow> real \<Rightarrow> real \<Rightarrow> int" where
  "imm_teorica_punto R M imm_obs =
     (let Rs = R_safe R;
          imm_t = (if tramo1 imm_obs then val1 Rs M else val2 Rs M);
          imm_t = \<lfloor>imm_t\<rfloor>;
          imm_t = max imm_t 1
      in imm_t)"

text \<open>
  The two arrays are columns of the same frame in \<open>main\<close>, hence of equal length;
  the model pairs them up element by element.
\<close>

definition imm_teorica_por_tramos :: "real list \<Rightarrow> real \<Rightarrow> real list \<Rightarrow> int list" where
  "imm_teorica_por_tramos Rs M imm_obs =
     map (\<lambda>(R, obs). imm_teorica_punto R M obs) (zip Rs imm_obs)"

text \<open>
  For comparison only: the same model with the integer threshold 4 in place of 4.22.
\<close>

definition imm_teorica_umbral_4 :: "real \<Rightarrow> real \<Rightarrow> real \<Rightarrow> int" where
  "imm_teorica_umbral_4 R M imm_obs =
     (let Rs = R_safe R;
          imm_t = (if imm_obs \<le> 4 then val1 Rs M else val2 Rs M)
      in max \<lfloor>imm_t\<rfloor> 1)"

section \<open>Building the maps\<close>

text \<open>
  The frame after \<open>main\<close> has added the columns \<open>R_km\<close>, \<open>IMM_t\<close> and \<open>Diferencia\<close>.
  \<open>mapa_diferencias\<close> asks whether \<open>Diferencia\<close> is \<open>None\<close>, so the column is optional.
\<close>

record fila = reporte +
  R_km :: real
  IMM_t :: int
  Diferencia :: "int option"

definition COLOR_MAP :: "(int \<times> string) list" where
  "COLOR_MAP =
     [(1, ''#0000A6''), (2, ''#49FE03''), (3, ''#FFFF01''), (4, ''#FFC800''), (5, ''#FFDE01''),
      (6, ''#FFBD01''), (7, ''#FF9C01''), (8, ''#FF7C01''), (9, ''#C73E10''), (10, ''#90001F'')]"

definition CAPA_INTENSIDAD :: "(int \<times> string) list" where
  "CAPA_INTENSIDAD =
     [(1, ''No sentido''), (2, ''Muy d'' @ [CHR 0xC3, CHR 0xA9] @ ''bil''), (3, ''Leve''),
      (4, ''Moderado''), (5, ''Poco fuerte''), (6, ''Fuerte''), (7, ''Muy fuerte''),
      (8, ''Destructivo''), (9, ''Muy destructivo''), (10, ''Desastroso'')]"

text \<open>\<open>d[k]\<close> for a dictionary \<open>d\<close>: the value at \<open>k\<close>, or \<open>KeyError\<close>.\<close>

definition getitem :: "('k \<times> 'v) list \<Rightarrow> 'k \<Rightarrow> error + 'v" where
  "getitem d k = (case map_of d k of None \<Rightarrow> Inl KeyError | Some v \<Rightarrow> Inr v)"

definition color_por_intensidad :: "int \<Rightarrow> error + string" where
  "color_por_intensidad i = (let k = max 1 (min 10 i) in getitem COLOR_MAP k)"

text \<open>
  A \<open>folium.Marker\<close> with a \<open>DivIcon\<close>, as \<open>cuadrado_marker\<close> builds it: the icon's
  \<open>html\<close> is a square of \<open>size\<close> pixels filled with \<open>fill\<close>.
\<close>

record marker =
  location :: "real \<times> real"
  tooltip :: string
  icon_size :: "int \<times> int"
  icon_anchor :: "int \<times> int"
  html :: string

definition div_html :: "int \<Rightarrow> string \<Rightarrow> string" where
  \<open>div_html sz fill =
     ''<div style="width:'' @ str_int sz @ ''px;height:'' @ str_int sz
       @ ''px;background:'' @ fill @ '';opacity:0.75;"></div>''\<close>

definition cuadrado_marker :: "real \<Rightarrow> real \<Rightarrow> int \<Rightarrow> string \<Rightarrow> string \<Rightarrow> marker" where
  "cuadrado_marker la lo sz fill tip =
     \<lparr>location = (la, lo), tooltip = tip, icon_size = (sz, sz),
      icon_anchor = (sz div 2, sz div 2), html = div_html sz fill\<rparr>"

text \<open>A \<open>folium.FeatureGroup\<close>: its name and the markers added to it, in order.\<close>

record feature_group =
  fg_name :: string
  fg_children :: "marker list"

text \<open>
  \<open>marker.add_to(capas[k])\<close> on a dictionary of feature groups: \<open>KeyError\<close> when \<open>k\<close> is
  not a key, otherwise the marker is appended to the group at \<open>k\<close>.
\<close>

fun add_to :: "marker \<Rightarrow> 'k \<Rightarrow> ('k \<times> feature_group) list \<Rightarrow> error + ('k \<times> feature_group) list" where
  "add_to m k [] = Inl KeyError"
| "add_to m k ((k', g) # rest) =
     (if k = k' then Inr ((k', g\<lparr>fg_children := fg_children g @ [m]\<rparr>) # rest)
      else (case add_to m k rest of
              Inl e \<Rightarrow> Inl e
            | Inr rest' \<Rightarrow> Inr ((k', g) # rest')))"

text \<open>
  A \<open>folium.Map\<close> as the two builders fill it: centre and zoom, the tooltip of the
  epicentre's circle, the feature groups in the order they were added, and the legend.
  The two tile layers and the layer control are the same in every map and left out.
\<close>

record mapa =
  map_location :: "real \<times> real"
  zoom_start :: int
  epicentro :: string
  grupos :: "feature_group list"
  leyenda :: string

definition tooltip_epicentro :: "evento \<Rightarrow> string" where
  "tooltip_epicentro ev = ''Evento: '' @ eventid ev @ '' | M='' @ fmt_f 2 (magnitude ev)"

subsection \<open>The legend\<close>

definition plantilla_leyenda ::
  "string \<Rightarrow> string \<Rightarrow> string \<Rightarrow> string \<Rightarrow> string \<Rightarrow> string \<Rightarrow> string \<Rightarrow> string \<Rightarrow> string" where
  \<open>plantilla_leyenda eid fecha_str hora_str la lo mag titulo_colores colores_html =
     nl @ join nl
      [''<div style="position: fixed; bottom: 20px; right: 20px; z-index: 9999; background: white; padding: 10px 12px;'',
       ''            border: 1px solid #ccc; border-radius: 6px; font-size: 14px; max-width: 320px;">'',
       ''  <h2 style="margin: 0 0 6px 0; font-size: 18px;">Leyenda</h2>'',
       '''',
       ''  <div style="display:flex; align-items:center; margin: 6px 0 8px 0;">'',
       ''    <span style="display:inline-block; width:16px; height:16px; border-radius:50%;'',
       ''                 background:#00008B; margin-right:6px;"></span>'',
       ''    <span><b>Epicentro</b></span>'',
       ''  </div>'',
       '''',
       ''  <div style="margin-left:22px; font-size: 13px;">'',
       ''    <div><b>Evento:</b> '' @ eid @ ''</div>'',
       ''    <div><b>Fecha:</b> '' @ fecha_str @ ''</div>'',
       ''    <div><b>Hora (UTC):</b> '' @ hora_str @ ''</div>'',
       ''    <div><b>Latitud:</b> '' @ la @ ''</div>'',
       ''    <div><b>Longitud:</b> '' @ lo @ ''</div>'',
       ''    <div><b>Magnitud:</b> '' @ mag @ ''</div>'',
       ''  </div>'',
       '''',
       ''  <hr style="margin:10px 0;">'',
       ''  <h4 style="margin: 0 0 6px 0;">'' @ titulo_colores @ ''</h4>'',
       ''  '' @ colores_html,
       ''</div>''] @ nl\<close>

definition fila_color :: "string \<times> string \<Rightarrow> string" where
  \<open>fila_color it =
     (case it of (c, et) \<Rightarrow>
        ''<div><span style="background:'' @ c
          @ ''; width:12px; height:12px; display:inline-block;"></span> '' @ et @ ''</div>'')\<close>

definition leyenda_evento_html ::
  "evento \<Rightarrow> string \<Rightarrow> (string \<times> string) list \<Rightarrow> error + string" where
  "leyenda_evento_html ev titulo_colores items_colores =
     (case fromisoformat (replace_Z (origintime ev)) of
        Inl e \<Rightarrow> Inl e
      | Inr dt \<Rightarrow>
          (let fecha_str = strftime_fecha dt;
               hora_str = strftime_hora dt;
               colores_html = join nl (map fila_color items_colores)
           in Inr (plantilla_leyenda (eventid ev) fecha_str hora_str
                     (fmt_f 6 (latitude ev)) (fmt_f 6 (longitude ev)) (fmt_f 2 (magnitude ev))
                     titulo_colores colores_html)))"

subsection \<open>The map of reported intensities\<close>

text \<open>The body of the loop over the rows: the layer key and the marker of one row.\<close>

definition marcador_intensidad :: "fila \<Rightarrow> error + (int \<times> marker)" where
  "marcador_intensidad r =
     (let k = max 1 (min 10 (intensity r));
          sz = 2 * (3 + max 0 (min 5 (intensity r - 3)))
      in case color_por_intensidad k of
           Inl e \<Rightarrow> Inl e
         | Inr c \<Rightarrow>
             Inr (k, cuadrado_marker (lat r) (lon r) sz c
                       (''R = '' @ fmt_f 1 (R_km r) @ '' km | IMM_o = '' @ str_int (intensity r))))"

fun capas_intensidad ::
  "fila list \<Rightarrow> (int \<times> feature_group) list \<Rightarrow> error + (int \<times> feature_group) list" where
  "capas_intensidad [] capas = Inr capas"
| "capas_intensidad (r # df) capas =
     (case marcador_intensidad r of
        Inl e \<Rightarrow> Inl e
      | Inr (k, m) \<Rightarrow>
          (case add_to m k capas of
             Inl e \<Rightarrow> Inl e
           | Inr capas' \<Rightarrow> capas_intensidad df capas'))"

text \<open>\<open>[(COLOR_MAP[k], CAPA_INTENSIDAD[k]) for k in ks]\<close>.\<close>

fun items_intensidad :: "int list \<Rightarrow> error + (string \<times> string) list" where
  "items_intensidad [] = Inr []"
| "items_intensidad (k # ks) =
     (case getitem COLOR_MAP k of
        Inl e \<Rightarrow> Inl e
      | Inr c \<Rightarrow>
          (case getitem CAPA_INTENSIDAD k of
             Inl e \<Rightarrow> Inl e
           | Inr et \<Rightarrow>
               (case items_intensidad ks of
                  Inl e \<Rightarrow> Inl e
                | Inr its \<Rightarrow> Inr ((c, et) # its))))"

definition mapa_intensidades :: "fila list \<Rightarrow> evento \<Rightarrow> int \<Rightarrow> error + mapa" where
  "mapa_intensidades df ev zoom =
     (let capas = map (\<lambda>(k, v). (k, \<lparr>fg_name = v, fg_children = []\<rparr>)) CAPA_INTENSIDAD
      in case capas_intensidad df capas of
           Inl e \<Rightarrow> Inl e
         | Inr capas' \<Rightarrow>
             (case items_intensidad [1..10] of
                Inl e \<Rightarrow> Inl e
              | Inr items \<Rightarrow>
                  (case leyenda_evento_html ev ''Intensidad reportada'' items of
                     Inl e \<Rightarrow> Inl e
                   | Inr legend_html \<Rightarrow>
                       Inr \<lparr>map_location = (latitude ev, longitude ev), zoom_start = zoom,
                            epicentro = tooltip_epicentro ev, grupos = map snd capas',
                            leyenda = legend_html\<rparr>)))"

subsection \<open>The map of differences\<close>

definition mayor_igual :: string where
  "mayor_igual = [CHR 0xE2, CHR 0x89, CHR 0xA5]"

definition capas_diff :: "(string \<times> feature_group) list" where
  "capas_diff =
     [(''dif = 0'', \<lparr>fg_name = ''diferencia = 0'', fg_children = []\<rparr>),
      (''dif = 1'', \<lparr>fg_name = ''diferencia = 1'', fg_children = []\<rparr>),
      (''dif '' @ mayor_igual @ '' 2'',
         \<lparr>fg_name = ''diferencia '' @ mayor_igual @ '' 2'', fg_children = []\<rparr>)]"

definition color_por_diferencia :: "int \<Rightarrow> string" where
  "color_por_diferencia d =
     (if d = 0 then ''#00A600'' else if d = 1 then ''#FF9A00'' else ''#C00000'')"

definition marcador_diferencia :: "fila \<Rightarrow> string \<times> marker" where
  "marcador_diferencia r =
     (let d = (case Diferencia r of Some x \<Rightarrow> x | None \<Rightarrow> 0);
          capa = (if d = 0 then ''dif = 0''
                  else if d = 1 then ''dif = 1'' else ''dif '' @ mayor_igual @ '' 2'');
          sz = 2 * (3 + max 0 (min 5 (intensity r - 3)))
      in (capa, cuadrado_marker (lat r) (lon r) sz (color_por_diferencia d)
                  (''IMM_o = '' @ str_int (intensity r) @ '' | IMM_t = '' @ str_int (IMM_t r)
                     @ '' | dif = '' @ str_int d)))"

fun capas_diferencia ::
  "fila list \<Rightarrow> (string \<times> feature_group) list \<Rightarrow> error + (string \<times> feature_group) list" where
  "capas_diferencia [] capas = Inr capas"
| "capas_diferencia (r # df) capas =
     (case marcador_diferencia r of
        (capa, m) \<Rightarrow>
          (case add_to m capa capas of
             Inl e \<Rightarrow> Inl e
           | Inr capas' \<Rightarrow> capas_diferencia df capas'))"

definition items_diferencia :: "(string \<times> string) list" where
  "items_diferencia =
     [(''#00A600'', ''diferencia = 0''),
      (''#FF9A00'', ''diferencia = 1''),
      (''#C00000'', ''diferencia '' @ mayor_igual @ '' 2'')]"

definition mapa_diferencias :: "fila list \<Rightarrow> evento \<Rightarrow> int \<Rightarrow> error + mapa" where
  "mapa_diferencias df ev zoom =
     (case capas_diferencia df capas_diff of
        Inl e \<Rightarrow> Inl e
      | Inr capas' \<Rightarrow>
          (case leyenda_evento_html ev ''Nivel de diferencia'' items_diferencia of
             Inl e \<Rightarrow> Inl e
           | Inr legend_html \<Rightarrow>
               Inr \<lparr>map_location = (latitude ev, longitude ev), zoom_start = zoom,
                    epicentro = tooltip_epicentro ev, grupos = map snd capas',
                    leyenda = legend_html\<rparr>))"

section \<open>The program\<close>

record args =
  event_id :: "string option"
  zoom :: int
  output_prefix :: string

text \<open>
  The computations of \<open>main\<close>: the columns \<open>R_km\<close>, \<open>IMM_t\<close> and
  \<open>Diferencia = np.abs(intensity - IMM_t).astype(int)\<close> added to the frame.
\<close>

definition calculos :: "evento \<Rightarrow> reporte list \<Rightarrow> fila list" where
  "calculos ev df =
     (let Rs = calcular_distancias df (latitude ev) (longitude ev);
          imm_t = imm_teorica_por_tramos Rs (magnitude ev) (map (\<lambda>r. of_int (intensity r)) df)
      in map (\<lambda>(r, R, t).
                \<lparr>userid = userid r, lat = lat r, lon = lon r, intensity = intensity r,
                 R_km = R, IMM_t = t, Diferencia = Some \<bar>intensity r - t\<bar>\<rparr>)
             (zip df (zip Rs imm_t)))"

text \<open>
  \<open>main\<close> on the parsed arguments, the opened database and the files written so far:
  its result is the error raised or the message printed, with the files afterwards
  (\<open>save\<close> adds a file with its map).
\<close>

definition main ::
  "args \<Rightarrow> base_datos \<Rightarrow> (string \<times> mapa) list \<Rightarrow> (error + string) \<times> (string \<times> mapa) list" where
  "main a conn fs =
     (case leer_evento conn (event_id a) of
        Inl e \<Rightarrow> (Inl e, fs)
      | Inr ev \<Rightarrow>
          (let df = leer_reportes conn (eventid ev)
           in if df = [] then (Inl (ValueError msg_sin_reportes), fs)
              else
                (let df' = calculos ev df
                 in case mapa_intensidades df' ev (zoom a) of
                      Inl e \<Rightarrow> (Inl e, fs)
                    | Inr m_int \<Rightarrow>
                        (case mapa_diferencias df' ev (zoom a) of
                           Inl e \<Rightarrow> (Inl e, fs)
                         | Inr m_dif \<Rightarrow>
                             (let prefix = (if output_prefix a \<noteq> [] then output_prefix a @ ''_''
                                            else []);
                                  out1 = prefix @ ''mapa_'' @ eventid ev @ ''.html'';
                                  out2 = prefix @ ''mapa_diferencia_'' @ eventid ev @ ''.html''
                              in (Inr (''Archivos generados:'' @ nl @ ''- '' @ out1 @ nl
                                         @ ''- '' @ out2),
                                  fs @ [(out1, m_int), (out2, m_dif)]))))))"

section \<open>Notions used to state the properties\<close>




text \<open>The marker size as a function of the observed intensity.\<close>

definition tamano :: "int \<Rightarrow> int" where
  "tamano i = 6 + 2 * max 0 (min 5 (i - 3))"

section \<open>Properties of the numeric core\<close>

lemma tramo1_of_int: "tramo1 (of_int i) \<longleftrightarrow> i \<le> 4"
proof
  assume "tramo1 (of_int i)"
  then have "real_of_int i < 5" by (simp add: tramo1_def)
  then have "i < 5" by linarith
  then show "i \<le> 4" by simp
next
  assume "i \<le> 4"
  then have "real_of_int i \<le> 4" by simp
  then show "tramo1 (of_int i)" by (simp add: tramo1_def)
qed










text \<open>
  C9. On an integer observed intensity the threshold 4.22 selects formula A exactly
  when the intensity is at most 4 and formula B exactly when it is at least 5, so
  the model returns what the model with threshold 4 returns.
\<close>

theorem umbral_entero_equivalente:
  "(tramo1 (of_int i) \<longleftrightarrow> i \<le> 4)
   \<and> (\<not> tramo1 (of_int i) \<longleftrightarrow> 5 \<le> i)
   \<and> imm_teorica_punto R M (of_int i) = imm_teorica_umbral_4 R M (of_int i)
   \<and> imm_teorica_por_tramos Rs M (map of_int obs) =
       map (\<lambda>(R, obs). imm_teorica_umbral_4 R M obs) (zip Rs (map of_int obs))"
proof -
  have p: "imm_teorica_punto R M (of_int i) = imm_teorica_umbral_4 R M (of_int i)" for R i
    using tramo1_of_int [of i]
    by (simp add: imm_teorica_punto_def imm_teorica_umbral_4_def)
  have "imm_teorica_por_tramos Rs M (map of_int obs) =
       map (\<lambda>(R, obs). imm_teorica_umbral_4 R M obs) (zip Rs (map of_int obs))"
    unfolding imm_teorica_por_tramos_def
    by (rule map_cong) (auto simp: p dest!: set_zip_rightD)
  then show ?thesis
    using tramo1_of_int [of i] p by auto
qed

theorem umbral_entero_equivalente_witness:
  "tramo1 (of_int 4) \<and> \<not> tramo1 (of_int 5)
   \<and> imm_teorica_punto 1 6 (of_int 5) = imm_teorica_umbral_4 1 6 (of_int 5)"
  using umbral_entero_equivalente [of 4] umbral_entero_equivalente [of 5 1 6]
  by simp

section \<open>Properties of the layers and of the program\<close>






lemma clamp_cases:
  "max 1 (min 10 (i::int)) \<in> {1, 2, 3, 4, 5, 6, 7, 8, 9, 10}"
  by (auto simp: max_def min_def)

lemma getitem_COLOR_MAP:
  "k \<in> {1, 2, 3, 4, 5, 6, 7, 8, 9, 10} \<Longrightarrow> \<exists>c. getitem COLOR_MAP k = Inr c"
  by (auto simp: getitem_def COLOR_MAP_def)

lemma color_por_intensidad_total: "\<exists>c. color_por_intensidad i = Inr c"
  unfolding color_por_intensidad_def Let_def
  by (rule getitem_COLOR_MAP) (rule clamp_cases)

lemma marcador_intensidad_total:
  "\<exists>c. color_por_intensidad (intensity r) = Inr c
     \<and> marcador_intensidad r =
         Inr (max 1 (min 10 (intensity r)),
              cuadrado_marker (lat r) (lon r) (tamano (intensity r)) c
                (''R = '' @ fmt_f 1 (R_km r) @ '' km | IMM_o = '' @ str_int (intensity r)))"
proof -
  obtain c where c: "color_por_intensidad (intensity r) = Inr c"
    using color_por_intensidad_total by blast
  then have "color_por_intensidad (max 1 (min 10 (intensity r))) = Inr c"
    by (simp add: color_por_intensidad_def Let_def)
  with c show ?thesis
    by (simp add: marcador_intensidad_def Let_def tamano_def)
qed










lemma map_filter_empty_iff: "List.map_filter f xs = [] \<longleftrightarrow> (\<forall>x \<in> set xs. f x = None)"
  by (induction xs) (auto simp: map_filter_simps split: option.splits)


text \<open>
  C5. In both builders the side of a marker is \<open>6 + 2 * max(0, min(5, i - 3))\<close> for
  the observed intensity \<open>i\<close> of the row, whatever its difference; the size does not
  decrease when the intensity grows, and it is 16 from intensity 8 on.
\<close>

theorem tamano_marcador:
  "(\<exists>m. marcador_intensidad r = Inr (max 1 (min 10 (intensity r)), m)
        \<and> icon_size m = (tamano (intensity r), tamano (intensity r)))
   \<and> icon_size (snd (marcador_diferencia r)) = (tamano (intensity r), tamano (intensity r))
   \<and> icon_size (snd (marcador_diferencia (r\<lparr>Diferencia := d\<rparr>)))
       = icon_size (snd (marcador_diferencia r))
   \<and> tamano i = 6 + 2 * max 0 (min 5 (i - 3))
   \<and> (i \<le> j \<longrightarrow> tamano i \<le> tamano j)
   \<and> (8 \<le> i \<longrightarrow> tamano i = 16)"
proof -
  have "\<exists>m. marcador_intensidad r = Inr (max 1 (min 10 (intensity r)), m)
        \<and> icon_size m = (tamano (intensity r), tamano (intensity r))"
    using marcador_intensidad_total [of r] by (auto simp: cuadrado_marker_def)
  moreover have "icon_size (snd (marcador_diferencia r)) = (tamano (intensity r), tamano (intensity r))" for r
    by (simp add: marcador_diferencia_def Let_def cuadrado_marker_def tamano_def)
  moreover have "i \<le> j \<longrightarrow> tamano i \<le> tamano j"
    by (simp add: tamano_def max_def min_def)
  moreover have "8 \<le> i \<longrightarrow> tamano i = 16"
    by (simp add: tamano_def max_def min_def)
  ultimately show ?thesis
    by (simp add: tamano_def)
qed

theorem tamano_marcador_witness:
  "(3::int) \<le> 9 \<and> tamano 3 = 6 \<and> tamano 9 = 16 \<and> tamano 3 \<le> tamano 9 \<and> tamano 4 = 8"
  using tamano_marcador [of _ _ 3 9] tamano_marcador [of _ _ 9 9] tamano_marcador [of _ _ 4 4]
  by simp







text \<open>
  C6. When the requested event id is in no row of \<open>eventinfo\<close>, or no id is given
  and \<open>eventinfo\<close> is empty, \<open>main\<close> fails with the error of \<open>leer_evento\<close>; when the
  event is found and none of its reports has both coordinates, it fails with the
  error for an empty frame. Whenever \<open>main\<close> fails, no file has been written.
\<close>

theorem main_errores:
  "(event_id a = Some e \<and> e \<notin> eventid ` set (eventinfo conn) \<longrightarrow>
      main a conn fs = (Inl (ValueError msg_sin_evento), fs))
   \<and> (event_id a = None \<and> eventinfo conn = [] \<longrightarrow>
      main a conn fs = (Inl (ValueError msg_sin_evento), fs))
   \<and> (leer_evento conn (event_id a) = Inr ev
        \<and> (\<forall>r \<in> set (intensityreports conn).
              db_eventid r = eventid ev \<longrightarrow> db_lat r = None \<or> db_lon r = None) \<longrightarrow>
      main a conn fs = (Inl (ValueError msg_sin_reportes), fs))
   \<and> (\<forall>x. fst (main a conn fs) = Inl x \<longrightarrow> snd (main a conn fs) = fs)"
proof -
  have a: "event_id a = Some e \<and> e \<notin> eventid ` set (eventinfo conn) \<longrightarrow>
      main a conn fs = (Inl (ValueError msg_sin_evento), fs)"
  proof
    assume h: "event_id a = Some e \<and> e \<notin> eventid ` set (eventinfo conn)"
    then have "filter (\<lambda>r. eventid r = e) (eventinfo conn) = []"
      by (auto simp: filter_empty_conv)
    with h show "main a conn fs = (Inl (ValueError msg_sin_evento), fs)"
      by (simp add: main_def leer_evento_def fetchone_def)
  qed
  have b: "event_id a = None \<and> eventinfo conn = [] \<longrightarrow>
      main a conn fs = (Inl (ValueError msg_sin_evento), fs)"
    by (simp add: main_def leer_evento_def fetchone_def)
  have c: "leer_evento conn (event_id a) = Inr ev
        \<and> (\<forall>r \<in> set (intensityreports conn).
              db_eventid r = eventid ev \<longrightarrow> db_lat r = None \<or> db_lon r = None) \<longrightarrow>
      main a conn fs = (Inl (ValueError msg_sin_reportes), fs)"
  proof
    assume h: "leer_evento conn (event_id a) = Inr ev
        \<and> (\<forall>r \<in> set (intensityreports conn).
              db_eventid r = eventid ev \<longrightarrow> db_lat r = None \<or> db_lon r = None)"
    then have "leer_reportes conn (eventid ev) = []"
      unfolding leer_reportes_def map_filter_empty_iff
      by (auto split: option.splits)
    with h show "main a conn fs = (Inl (ValueError msg_sin_reportes), fs)"
      by (simp add: main_def)
  qed
  have d: "\<forall>x. fst (main a conn fs) = Inl x \<longrightarrow> snd (main a conn fs) = fs"
    by (auto simp: main_def Let_def split: sum.splits)
  from a b c d show ?thesis by blast
qed

theorem main_errores_witness:
  "main \<lparr>event_id = Some ''otro'', zoom = 9, output_prefix = ''''\<rparr>
        \<lparr>eventinfo = [\<lparr>eventid = ''insi2025otmk'', origintime = ''2025-07-08T21:41:00Z'',
                         latitude = 14.5, longitude = - 90.5, magnitude = 6\<rparr>],
         intensityreports = [\<lparr>db_eventid = ''insi2025otmk'', db_userid = ''u'', db_lat = None,
                                db_lon = Some (- 90.5), db_intensity = 4\<rparr>]\<rparr> []
     = (Inl (ValueError msg_sin_evento), [])
   \<and> main \<lparr>event_id = None, zoom = 9, output_prefix = ''''\<rparr>
        \<lparr>eventinfo = [], intensityreports = []\<rparr> [] = (Inl (ValueError msg_sin_evento), [])
   \<and> main \<lparr>event_id = None, zoom = 9, output_prefix = ''''\<rparr>
        \<lparr>eventinfo = [\<lparr>eventid = ''insi2025otmk'', origintime = ''2025-07-08T21:41:00Z'',
                         latitude = 14.5, longitude = - 90.5, magnitude = 6\<rparr>],
         intensityreports = [\<lparr>db_eventid = ''insi2025otmk'', db_userid = ''u'', db_lat = None,
                                db_lon = Some (- 90.5), db_intensity = 4\<rparr>]\<rparr> []
     = (Inl (ValueError msg_sin_reportes), [])"
proof -
  let ?ev = "\<lparr>eventid = ''insi2025otmk'', origintime = ''2025-07-08T21:41:00Z'',
                         latitude = 14.5, longitude = - 90.5, magnitude = 6\<rparr>"
  let ?conn = "\<lparr>eventinfo = [?ev],
         intensityreports = [\<lparr>db_eventid = ''insi2025otmk'', db_userid = ''u'', db_lat = None,
                                db_lon = Some (- 90.5), db_intensity = 4\<rparr>]\<rparr>"
  let ?a = "\<lparr>event_id = None, zoom = 9, output_prefix = ''''\<rparr>"
  have 1: "main \<lparr>event_id = Some ''otro'', zoom = 9, output_prefix = ''''\<rparr> ?conn []
     = (Inl (ValueError msg_sin_evento), [])"
    using main_errores [of "\<lparr>event_id = Some ''otro'', zoom = 9, output_prefix = ''''\<rparr>"
        "''otro''" ?conn "[]"]
    by simp
  have 2: "main ?a \<lparr>eventinfo = [], intensityreports = []\<rparr> [] = (Inl (ValueError msg_sin_evento), [])"
    using main_errores [of ?a _ "\<lparr>eventinfo = [], intensityreports = []\<rparr>" "[]"]
    by simp
  have "leer_evento ?conn (event_id ?a) = Inr ?ev"
    by (simp add: leer_evento_def fetchone_def)
  then have 3: "main ?a ?conn [] = (Inl (ValueError msg_sin_reportes), [])"
    using main_errores [of ?a _ ?conn "[]" ?ev]
    by simp
  from 1 2 3 show ?thesis by blast
qed

section \<open>Properties of the legend\<close>

lemma leyenda_evento_html_Inr:
  "fromisoformat (replace_Z (origintime ev)) = Inr dt \<Longrightarrow>
   leyenda_evento_html ev titulo items =
     Inr (plantilla_leyenda (eventid ev) (strftime_fecha dt) (strftime_hora dt)
            (fmt_f 6 (latitude ev)) (fmt_f 6 (longitude ev)) (fmt_f 2 (magnitude ev))
            titulo (join nl (map fila_color items)))"
  by (simp add: leyenda_evento_html_def)

lemma strftime_hora_utc:
  assumes "utcoffset dt = None \<or> utcoffset dt = Some 0" and "hour dt < 24" and "minute dt < 60"
  shows "strftime_hora dt = hora_en_utc dt"
proof -
  from assms(2,3) have "60 * hour dt + minute dt < 1440" by simp
  then have "(int (60 * hour dt + minute dt)) mod 1440 = int (60 * hour dt + minute dt)"
    by simp
  moreover have "(60 * hour dt + minute dt) div 60 = hour dt"
    using assms(3) by simp
  moreover have "(60 * hour dt + minute dt) mod 60 = minute dt"
    using assms(3) by simp
  ultimately show ?thesis
    using assms(1) by (auto simp: strftime_hora_def hora_en_utc_def Let_def simp del: of_nat_add of_nat_mult)
qed

text \<open>
  C7. The legend prints the clock time of \<open>origintime\<close> at the offset the string
  carries, under the label \<open>Hora (UTC)\<close>. For the event \<open>insi2025otmk\<close> with origin
  time \<open>2025-07-08T15:41:00-06:00\<close> the legend shows \<open>15:41:00\<close>, while that instant
  is \<open>21:41:00\<close> in UTC. (By \<open>strftime_hora_utc\<close> the two agree when the offset is
  zero or absent.)
\<close>

theorem leyenda_hora_sin_convertir:
  "leyenda_evento_html
     \<lparr>eventid = ''insi2025otmk'', origintime = ''2025-07-08T15:41:00-06:00'',
      latitude = 14.5, longitude = - 90.5, magnitude = 6\<rparr>
     ''Nivel de diferencia'' items_diferencia
   = Inr (plantilla_leyenda ''insi2025otmk'' ''2025-07-08'' ''15:41:00''
            ''14.500000'' ''-90.500000'' ''6.00''
            ''Nivel de diferencia'' (join nl (map fila_color items_diferencia)))
   \<and> map_sum id hora_en_utc (fromisoformat (replace_Z ''2025-07-08T15:41:00-06:00''))
       = Inr ''21:41:00''"
proof -
  have f: "fromisoformat (replace_Z ''2025-07-08T15:41:00-06:00'') =
      Inr \<lparr>year = 2025, month = 7, day = 8, hour = 15, minute = 41, second = 0,
           microsecond = 0, utcoffset = Some (- 360)\<rparr>"
    by (simp add: fromisoformat_def replace_Z_def parse_fecha_def parse_hms_def parse_offset_def
        num_def es_digito_def es_signo_def valor_digito_def dias_del_mes_def bisiesto_def)
  have d: "digitos 2 41 = ''41''" "digitos 2 15 = ''15''" "digitos 2 21 = ''21''" "digitos 2 0 = ''00''"
    "digitos 2 7 = ''07''" "digitos 2 8 = ''08''" "digitos 4 2025 = ''2025''"
    by (simp_all add: digitos.simps digito_def)
  have n: "fmt_f 6 14.5 = ''14.500000''" "fmt_f 6 (- 90.5) = ''-90.500000''" "fmt_f 2 6 = ''6.00''"
    by (simp_all add: fmt_f_def round_half_even_def dec.simps digitos.simps digito_def)
  have "map_sum id hora_en_utc (fromisoformat (replace_Z ''2025-07-08T15:41:00-06:00''))
       = Inr ''21:41:00''"
    using d by (simp add: f hora_en_utc_def)
  moreover have "leyenda_evento_html
     \<lparr>eventid = ''insi2025otmk'', origintime = ''2025-07-08T15:41:00-06:00'',
      latitude = 14.5, longitude = - 90.5, magnitude = 6\<rparr>
     ''Nivel de diferencia'' items_diferencia
   = Inr (plantilla_leyenda ''insi2025otmk'' ''2025-07-08'' ''15:41:00''
            ''14.500000'' ''-90.500000'' ''6.00''
            ''Nivel de diferencia'' (join nl (map fila_color items_diferencia)))"
    using d n by (simp add: leyenda_evento_html_def f strftime_fecha_def strftime_hora_def)
  ultimately show ?thesis by blast
qed

end
